theory Spec2Isabelle
  imports Complex_Main "HOL-Library.Sublist"
begin

section \<open>Values decoded from JSON\<close>

text \<open>
  \<^verbatim>\<open>fetch_steam_applist.py\<close> works on what \<^verbatim>\<open>resp.json()\<close> returns: Python values
  built from \<^verbatim>\<open>None\<close>, \<^verbatim>\<open>bool\<close>, \<^verbatim>\<open>int\<close>, \<^verbatim>\<open>float\<close>, \<^verbatim>\<open>str\<close>, \<^verbatim>\<open>list\<close> and \<^verbatim>\<open>dict\<close>.
  A \<^verbatim>\<open>str\<close> is a \<^typ>\<open>string\<close>, each \<^typ>\<open>char\<close> standing for a code point below 256.
  A \<^verbatim>\<open>dict\<close> is an association list in insertion order, looked up with \<^const>\<open>map_of\<close>.
  A finite \<^verbatim>\<open>float\<close> is a mantissa and a binary exponent, \<open>m * 2 ^ e\<close>.
\<close>

datatype pyfloat = Float_fin int int | Float_inf bool | Float_nan

datatype json =
    JNull
  | JBool bool
  | JInt int
  | JFloat pyfloat
  | JStr string
  | JArr "json list"
  | JObj "(string \<times> json) list"

text \<open>The exceptions that the program can meet; all of them derive from \<^verbatim>\<open>Exception\<close>.\<close>

datatype exn =
    AttributeError
  | TypeError
  | ValueError
  | OverflowError
  | EOFError
  | RuntimeError
  | OSError
  | UnicodeEncodeError
  | ConnectionError
  | Timeout
  | HTTPError
  | JSONDecodeError

text \<open>Python truth value testing, as used by \<^verbatim>\<open>or\<close> and \<^verbatim>\<open>if\<close>.\<close>

fun truthy :: "json \<Rightarrow> bool" where
  "truthy JNull = False"
| "truthy (JBool b) = b"
| "truthy (JInt n) = (n \<noteq> 0)"
| "truthy (JFloat (Float_fin m e)) = (m \<noteq> 0)"
| "truthy (JFloat (Float_inf s)) = True"
| "truthy (JFloat Float_nan) = True"
| "truthy (JStr s) = (s \<noteq> [])"
| "truthy (JArr xs) = (xs \<noteq> [])"
| "truthy (JObj kvs) = (kvs \<noteq> [])"

text \<open>\<^verbatim>\<open>a or b\<close>: the left operand when it is truthy, the right operand otherwise.\<close>

definition py_or :: "json \<Rightarrow> json \<Rightarrow> json" where
  "py_or a b = (if truthy a then a else b)"

text \<open>\<^verbatim>\<open>d.get(k)\<close> on a dict: the value, or \<^verbatim>\<open>None\<close> when the key is missing.\<close>

definition dict_get :: "(string \<times> json) list \<Rightarrow> string \<Rightarrow> json" where
  "dict_get kvs k = (case map_of kvs k of None \<Rightarrow> JNull | Some v \<Rightarrow> v)"

subsection \<open>Strings: \<^verbatim>\<open>str.strip\<close>, \<^verbatim>\<open>int(str)\<close>, \<^verbatim>\<open>str(int)\<close>\<close>

text \<open>
  \<^verbatim>\<open>str.isspace\<close> on the code points below 256. The conversions between \<^verbatim>\<open>int\<close> and
  \<^verbatim>\<open>str\<close> below are those of the language, without the limit on the number of digits
  that an interpreter may be configured with (\<^verbatim>\<open>sys.set_int_max_str_digits\<close>).
\<close>

definition py_isspace :: "char \<Rightarrow> bool" where
  "py_isspace c =
     (let n = (of_char c :: nat)
      in (9 \<le> n \<and> n \<le> 13) \<or> (28 \<le> n \<and> n \<le> 32) \<or> n = 133 \<or> n = 160)"

definition strip :: "string \<Rightarrow> string" where
  "strip s = rev (dropWhile py_isspace (rev (dropWhile py_isspace s)))"

definition digit_of :: "char \<Rightarrow> nat option" where
  "digit_of c =
     (let n = (of_char c :: nat)
      in if 48 \<le> n \<and> n \<le> 57 then Some (n - 48) else None)"

text \<open>
  The digits of a decimal literal: single underscores are allowed between digits only.
  The flag says whether the previous character was a digit.
\<close>

fun parse_digits :: "bool \<Rightarrow> nat \<Rightarrow> string \<Rightarrow> nat option" where
  "parse_digits prev acc [] = (if prev then Some acc else None)"
| "parse_digits prev acc (c # cs) =
     (if c = CHR ''_'' then (if prev then parse_digits False acc cs else None)
      else (case digit_of c of
              None \<Rightarrow> None
            | Some d \<Rightarrow> parse_digits True (10 * acc + d) cs))"

text \<open>\<^verbatim>\<open>int(s)\<close> for a string, base 10: \<^const>\<open>None\<close> stands for \<^verbatim>\<open>ValueError\<close>.\<close>

definition int_of_str :: "string \<Rightarrow> int option" where
  "int_of_str s =
     (case strip s of
        [] \<Rightarrow> None
      | c # cs \<Rightarrow>
          if c = CHR ''-'' then map_option (\<lambda>n. - int n) (parse_digits False 0 cs)
          else if c = CHR ''+'' then map_option int (parse_digits False 0 cs)
          else map_option int (parse_digits False 0 (c # cs)))"

definition digit_char :: "nat \<Rightarrow> char" where
  "digit_char d = ''0123456789'' ! d"

fun digits_of_nat :: "nat \<Rightarrow> string" where
  "digits_of_nat n =
     (if n < 10 then [digit_char n]
      else digits_of_nat (n div 10) @ [digit_char (n mod 10)])"

declare digits_of_nat.simps [simp del]

text \<open>\<^verbatim>\<open>str(i)\<close> for an \<^verbatim>\<open>int\<close>.\<close>

definition str_of_int :: "int \<Rightarrow> string" where
  "str_of_int i = (if i < 0 then CHR ''-'' # digits_of_nat (nat (- i)) else digits_of_nat (nat i))"

text \<open>\<^verbatim>\<open>int(f)\<close> of a finite float truncates towards zero.\<close>

definition float_trunc :: "int \<Rightarrow> int \<Rightarrow> int" where
  "float_trunc m e =
     (if 0 \<le> e then m * 2 ^ nat e else sgn m * (\<bar>m\<bar> div 2 ^ nat (- e)))"

text \<open>\<^verbatim>\<open>int(v)\<close>: \<^const>\<open>Inl\<close> is the exception raised.\<close>

fun py_int :: "json \<Rightarrow> exn + int" where
  "py_int JNull = Inl TypeError"
| "py_int (JBool b) = Inr (if b then 1 else 0)"
| "py_int (JInt n) = Inr n"
| "py_int (JFloat (Float_fin m e)) = Inr (float_trunc m e)"
| "py_int (JFloat (Float_inf s)) = Inl OverflowError"
| "py_int (JFloat Float_nan) = Inl ValueError"
| "py_int (JStr s) = (case int_of_str s of None \<Rightarrow> Inl ValueError | Some n \<Rightarrow> Inr n)"
| "py_int (JArr xs) = Inl TypeError"
| "py_int (JObj kvs) = Inl TypeError"

text \<open>
  \<^verbatim>\<open>str(v)\<close>. The text of a float, a list or a dict is Python's \<^verbatim>\<open>repr\<close>, which lives in
  the interpreter and not in this repository: it is the parameter \<open>repr\<close>.
\<close>

fun py_str :: "(json \<Rightarrow> string) \<Rightarrow> json \<Rightarrow> string" where
  "py_str repr (JStr s) = s"
| "py_str repr JNull = ''None''"
| "py_str repr (JBool b) = (if b then ''True'' else ''False'')"
| "py_str repr (JInt n) = str_of_int n"
| "py_str repr v = repr v"

section \<open>The extractor\<close>

text \<open>
  One pass of the loop body of \<^verbatim>\<open>extract_apps\<close> on the entry \<open>e\<close>:
  \<^item> line 61 is \<open>chosen_appid\<close> and line 62 is \<open>chosen_name\<close>;
  \<^item> \<^verbatim>\<open>e.get\<close> is outside the \<^verbatim>\<open>try\<close>: on anything but a dict it raises
    \<^verbatim>\<open>AttributeError\<close>, which leaves the generator (\<^const>\<open>Inl\<close>);
  \<^item> inside the \<^verbatim>\<open>try\<close>, \<^verbatim>\<open>int(appid)\<close> is evaluated first; when it raises, the entry is
    skipped (\<open>Inr None\<close>); \<^verbatim>\<open>str(name).strip()\<close> does not raise;
  \<^item> otherwise the pair is yielded (\<open>Inr (Some p)\<close>).
\<close>

definition chosen_appid :: "(string \<times> json) list \<Rightarrow> json" where
  "chosen_appid kvs =
     py_or (py_or (dict_get kvs ''appid'') (dict_get kvs ''AppId'')) (dict_get kvs ''AppID'')"

definition chosen_name :: "(string \<times> json) list \<Rightarrow> json" where
  "chosen_name kvs = py_or (py_or (dict_get kvs ''name'') (dict_get kvs ''Name'')) (JStr [])"

definition extract_entry :: "(json \<Rightarrow> string) \<Rightarrow> json \<Rightarrow> exn + (int \<times> string) option" where
  "extract_entry repr e =
     (case e of
        JObj kvs \<Rightarrow>
          (let appid = chosen_appid kvs;
               name = chosen_name kvs
           in case py_int appid of
                Inl ex \<Rightarrow> Inr None
              | Inr n \<Rightarrow> Inr (Some (n, strip (py_str repr name))))
      | _ \<Rightarrow> Inl AttributeError)"

text \<open>\<^verbatim>\<open>for e in apps\<close>: what iterating a value yields, or \<^verbatim>\<open>TypeError\<close>.\<close>

fun py_iter :: "json \<Rightarrow> exn + json list" where
  "py_iter (JArr xs) = Inr xs"
| "py_iter (JStr s) = Inr (map (\<lambda>c. JStr [c]) s)"
| "py_iter (JObj kvs) = Inr (map (\<lambda>kv. JStr (fst kv)) kvs)"
| "py_iter v = Inl TypeError"

text \<open>
  Lines 57 and 58: the collection that the loop runs over. \<^verbatim>\<open>.get\<close> on a value that is
  not a dict raises \<^verbatim>\<open>AttributeError\<close>.
\<close>

definition raw_entries :: "json \<Rightarrow> exn + json list" where
  "raw_entries json_data =
     (case json_data of
        JObj kvs \<Rightarrow>
          (case py_or (dict_get kvs ''applist'') (JObj []) of
             JObj kvs2 \<Rightarrow> py_iter (py_or (dict_get kvs2 ''apps'') (JArr []))
           | _ \<Rightarrow> Inl AttributeError)
      | _ \<Rightarrow> Inl AttributeError)"

text \<open>The loop, consumed as \<^verbatim>\<open>main\<close> does with \<^verbatim>\<open>list(...)\<close>: the first exception ends it.\<close>

fun extract_loop :: "(json \<Rightarrow> string) \<Rightarrow> json list \<Rightarrow> exn + (int \<times> string) list" where
  "extract_loop repr [] = Inr []"
| "extract_loop repr (e # es) =
     (case extract_entry repr e of
        Inl ex \<Rightarrow> Inl ex
      | Inr p \<Rightarrow>
          (case extract_loop repr es of
             Inl ex \<Rightarrow> Inl ex
           | Inr ps \<Rightarrow> Inr (case p of None \<Rightarrow> ps | Some q \<Rightarrow> q # ps)))"

definition extract_apps :: "(json \<Rightarrow> string) \<Rightarrow> json \<Rightarrow> exn + (int \<times> string) list" where
  "extract_apps repr json_data =
     (case raw_entries json_data of
        Inl ex \<Rightarrow> Inl ex
      | Inr es \<Rightarrow> extract_loop repr es)"

section \<open>The fetcher\<close>

text \<open>
  What the program does to the world is a list of events, in order. The text of a
  diagnostic on \<^verbatim>\<open>sys.stderr\<close> is kept as a constructor with the values that the
  f-string interpolates.
\<close>

record request =
  req_url :: string
  req_params :: "(string \<times> string) list"
  req_headers :: "(string \<times> string) list"
  req_timeout :: int

text \<open>
  A \<^verbatim>\<open>requests.Response\<close>, as far as the program looks at it: the \<^verbatim>\<open>status_code\<close>
  attribute, what \<^verbatim>\<open>raise_for_status()\<close> does (\<^const>\<open>None\<close>: it returns) and what
  \<^verbatim>\<open>json()\<close> does.
\<close>

record response =
  status_code :: int
  raise_for_status :: "exn option"
  json_result :: "exn + json"

text \<open>The network: what the \<open>k\<close>-th call of \<^verbatim>\<open>requests.get\<close> does with a request.\<close>

type_synonym network = "nat \<Rightarrow> request \<Rightarrow> exn + response"

datatype diag =
    Key_ignored
  | Attempt_failed int exn
  | Fetching
  | Fetch_failed exn
  | Json_failed exn
  | Fetched nat string
  | Csv_failed exn
  | Done

datatype event =
    Http_get request
  | Sleep real
  | Stderr diag
  | Input_call string

definition DEFAULT_API_KEY :: string where
  "DEFAULT_API_KEY = ''1B27234A8D97A72C97E53BC43D646C1F''"

definition DEFAULT_URL :: string where
  "DEFAULT_URL = ''https://api.steampowered.com/ISteamApps/GetAppList/v2/''"

text \<open>The body of the \<^verbatim>\<open>try\<close> (lines 43 to 48) on attempt \<open>k\<close>.\<close>

definition try_get :: "network \<Rightarrow> nat \<Rightarrow> request \<Rightarrow> exn + json" where
  "try_get net k req =
     (case net k req of
        Inl ex \<Rightarrow> Inl ex
      | Inr resp \<Rightarrow>
          (case (if status_code resp = 404 then raise_for_status resp else None) of
             Some ex \<Rightarrow> Inl ex
           | None \<Rightarrow>
               (case raise_for_status resp of
                  Some ex \<Rightarrow> Inl ex
                | None \<Rightarrow> json_result resp)))"

text \<open>\<^verbatim>\<open>time.sleep(d)\<close> raises \<^verbatim>\<open>ValueError\<close> on a negative length.\<close>

definition py_sleep :: "real \<Rightarrow> exn option" where
  "py_sleep d = (if d < 0 then Some ValueError else None)"

text \<open>
  The \<^verbatim>\<open>while\<close> loop of \<^verbatim>\<open>fetch_applist\<close>, from the value of \<^verbatim>\<open>attempt\<close> on. An exception
  of \<^verbatim>\<open>time.sleep\<close> is raised inside the handler and leaves the function. When the loop
  ends without a \<^verbatim>\<open>return\<close>, the function returns \<^verbatim>\<open>None\<close>.
\<close>

function fetch_loop ::
  "network \<Rightarrow> request \<Rightarrow> int \<Rightarrow> real \<Rightarrow> int \<Rightarrow> event list \<Rightarrow> event list \<times> (exn + json)" where
  "fetch_loop net req max_attempts backoff attempt tr =
     (if attempt < max_attempts then
        (case try_get net (nat (attempt + 1)) req of
           Inr v \<Rightarrow> (tr @ [Http_get req], Inr v)
         | Inl ex \<Rightarrow>
             if attempt + 1 \<ge> max_attempts
             then (tr @ [Http_get req, Stderr (Attempt_failed (attempt + 1) ex)], Inl ex)
             else (case py_sleep (backoff * of_int (attempt + 1)) of
                     Some ex' \<Rightarrow>
                       (tr @ [Http_get req, Stderr (Attempt_failed (attempt + 1) ex)], Inl ex')
                   | None \<Rightarrow>
                       fetch_loop net req max_attempts backoff (attempt + 1)
                         (tr @ [Http_get req, Stderr (Attempt_failed (attempt + 1) ex),
                                Sleep (backoff * of_int (attempt + 1))])))
      else (tr, Inr JNull))"
  by pat_completeness auto
termination
  by (relation "measure (\<lambda>(net, req, max_attempts, backoff, attempt, tr). nat (max_attempts - attempt))")
     auto

declare fetch_loop.simps [simp del]

text \<open>
  The call \<^verbatim>\<open>requests.get(DEFAULT_URL, headers=headers, timeout=timeout)\<close> of line 43:
  no \<^verbatim>\<open>params\<close> argument, and the two headers of lines 33 to 37.
\<close>

definition applist_request :: "int \<Rightarrow> request" where
  "applist_request timeout =
     \<lparr>req_url = DEFAULT_URL, req_params = [],
      req_headers = [(''User-Agent'', ''fetch_steam_applist/1.0''), (''Accept'', ''application/json'')],
      req_timeout = timeout\<rparr>"

text \<open>
  \<^verbatim>\<open>fetch_applist\<close>: a non-empty key only prints the note of line 31; \<^verbatim>\<open>attempt\<close> starts
  at 0.
\<close>

definition fetch_applist ::
  "string \<Rightarrow> int \<Rightarrow> int \<Rightarrow> real \<Rightarrow> network \<Rightarrow> event list \<times> (exn + json)" where
  "fetch_applist api_key timeout max_attempts backoff net =
     fetch_loop net (applist_request timeout) max_attempts backoff 0
       (if api_key \<noteq> [] then [Stderr Key_ignored] else [])"

text \<open>The requests and the sleeps of a list of events.\<close>

fun gets :: "event list \<Rightarrow> request list" where
  "gets [] = []"
| "gets (Http_get r # es) = r # gets es"
| "gets (e # es) = gets es"

fun sleeps :: "event list \<Rightarrow> real list" where
  "sleeps [] = []"
| "sleeps (Sleep d # es) = d # sleeps es"
| "sleeps (e # es) = sleeps es"

section \<open>The writer\<close>

text \<open>
  \<^verbatim>\<open>csv.writer(f)\<close> with the default dialect: delimiter \<^verbatim>\<open>,\<close>, quote character \<^verbatim>\<open>"\<close>,
  doubled quotes, minimal quoting, line terminator CR LF. The file is opened with
  \<^verbatim>\<open>newline=""\<close>, so what the writer emits is what the file holds.
\<close>

definition DQ :: char where "DQ = CHR 0x22"
definition COMMA :: char where "COMMA = CHR 0x2C"
definition CR :: char where "CR = CHR 0x0D"
definition LF :: char where "LF = CHR 0x0A"

definition csv_special :: "char \<Rightarrow> bool" where
  "csv_special c = (c = COMMA \<or> c = DQ \<or> c = CR \<or> c = LF)"

definition csv_escape :: "string \<Rightarrow> string" where
  "csv_escape s = concat (map (\<lambda>c. if c = DQ then [DQ, DQ] else [c]) s)"

definition csv_field :: "string \<Rightarrow> string" where
  "csv_field s = (if list_ex csv_special s then DQ # csv_escape s @ [DQ] else s)"

fun join_fields :: "string list \<Rightarrow> string" where
  "join_fields [] = []"
| "join_fields [f] = csv_field f"
| "join_fields (f # fs) = csv_field f @ COMMA # join_fields fs"

text \<open>
  \<^verbatim>\<open>w.writerow(row)\<close>, the fields already turned into text (\<^verbatim>\<open>str\<close> of an \<^verbatim>\<open>int\<close>, a
  \<^verbatim>\<open>str\<close> as it is). A row of one empty field is written as two quotes.
\<close>

definition writerow :: "string list \<Rightarrow> string" where
  "writerow row =
     (let line = join_fields row
      in (if row \<noteq> [] \<and> line = [] then [DQ, DQ] else line) @ [CR, LF])"

text \<open>The text that \<^verbatim>\<open>write_csv\<close> sends to the file, lines 73 to 75.\<close>

definition csv_text :: "(int \<times> string) list \<Rightarrow> string" where
  "csv_text apps =
     writerow [''AppId'', ''Name'']
     @ concat (map (\<lambda>(appid, name). writerow [str_of_int appid, name]) apps)"

text \<open>
  Files: a path has a text, or the text that \<^verbatim>\<open>json.dump(data, jf, ensure_ascii=False,
  indent=2)\<close> writes for a value (the serialiser is the library's).
\<close>

datatype file_content = Text string | Json_dump json

type_synonym files = "string \<Rightarrow> file_content option"

text \<open>
  \<^verbatim>\<open>write_csv(path, apps)\<close>. \<open>fault\<close> is what the file system does to this call:
  \<open>Some ex\<close> when opening or writing raises \<open>ex\<close> (the model then leaves the files as
  they were), \<^const>\<open>None\<close> when it goes through.
\<close>

definition write_csv ::
  "exn option \<Rightarrow> string \<Rightarrow> (int \<times> string) list \<Rightarrow> files \<Rightarrow> (exn + unit) \<times> files" where
  "write_csv fault path apps fs =
     (case fault of
        Some ex \<Rightarrow> (Inl ex, fs)
      | None \<Rightarrow> (Inr (), fs(path \<mapsto> Text (csv_text apps))))"

section \<open>Reading the file back\<close>






section \<open>Orchestration\<close>

record args =
  arg_api_key :: string
  arg_out :: string
  arg_json :: bool

text \<open>
  The world of one run: the network, what the file system does to the JSON dump and to
  the CSV file, and what \<^verbatim>\<open>input()\<close> does (\<^const>\<open>Inl\<close>: it raises, as \<^verbatim>\<open>EOFError\<close>
  on a closed standard input or \<^verbatim>\<open>RuntimeError\<close> when there is none).
\<close>

record env =
  env_net :: network
  env_dump_fault :: "exn option"
  env_csv_fault :: "exn option"
  env_stdin :: "exn + string"

text \<open>
  How \<^verbatim>\<open>main()\<close> ends: it returns an exit code, which \<^verbatim>\<open>raise SystemExit(main())\<close>
  hands to the interpreter, or an exception leaves it uncaught (the interpreter prints
  the traceback and exits with status 1).
\<close>

datatype outcome = Exit int | Uncaught exn

fun exit_status :: "outcome \<Rightarrow> int" where
  "exit_status (Exit n) = n"
| "exit_status (Uncaught ex) = 1"

definition prompt :: string where
  "prompt = ''Press Enter to exit...''"

text \<open>Lines 93 to 98: the optional dump, whose exceptions are caught and logged.\<close>

definition dump_json :: "bool \<Rightarrow> exn option \<Rightarrow> json \<Rightarrow> files \<Rightarrow> event list \<times> files" where
  "dump_json flag fault data fs =
     (if flag then
        (case fault of
           Some ex \<Rightarrow> ([Stderr (Json_failed ex)], fs)
         | None \<Rightarrow> ([], fs(''steam_applist.json'' \<mapsto> Json_dump data)))
      else ([], fs))"

definition main :: "(json \<Rightarrow> string) \<Rightarrow> args \<Rightarrow> env \<Rightarrow> files \<Rightarrow> event list \<times> files \<times> outcome" where
  "main repr a w fs =
     (case fetch_applist (arg_api_key a) 60 3 2 (env_net w) of
        (tr1, Inl ex) \<Rightarrow>
          (Stderr Fetching # tr1 @ [Stderr (Fetch_failed ex), Input_call prompt], fs,
           (case env_stdin w of Inl ex' \<Rightarrow> Uncaught ex' | Inr line \<Rightarrow> Exit 2))
      | (tr1, Inr data) \<Rightarrow>
          (case dump_json (arg_json a) (env_dump_fault w) data fs of
             (tr2, fs2) \<Rightarrow>
               (case extract_apps repr data of
                  Inl ex \<Rightarrow> (Stderr Fetching # tr1 @ tr2, fs2, Uncaught ex)
                | Inr apps \<Rightarrow>
                    (case write_csv (env_csv_fault w) (arg_out a) apps fs2 of
                       (Inl ex, fs3) \<Rightarrow>
                         (Stderr Fetching # tr1 @ tr2
                            @ [Stderr (Fetched (length apps) (arg_out a)),
                               Stderr (Csv_failed ex), Input_call prompt],
                          fs3,
                          (case env_stdin w of Inl ex' \<Rightarrow> Uncaught ex' | Inr line \<Rightarrow> Exit 3))
                     | (Inr u, fs3) \<Rightarrow>
                         (Stderr Fetching # tr1 @ tr2
                            @ [Stderr (Fetched (length apps) (arg_out a)),
                               Stderr Done, Input_call prompt],
                          fs3,
                          (case env_stdin w of Inl ex' \<Rightarrow> Exit 0 | Inr line \<Rightarrow> Exit 0))))))"

section \<open>Concrete inputs\<close>

text \<open>
  The response of the end-to-end scenario:
  \<^verbatim>\<open>{"applist":{"apps":[{"appid":10,"name":"Half-Life"},{"appid":"bad","name":"X"},
  {"AppID":20,"Name":" Portal "}]}}\<close>.
\<close>

definition mock_response :: json where
  "mock_response =
     JObj [(''applist'', JObj [(''apps'', JArr
       [JObj [(''appid'', JInt 10), (''name'', JStr ''Half-Life'')],
        JObj [(''appid'', JStr ''bad''), (''name'', JStr ''X'')],
        JObj [(''AppID'', JInt 20), (''Name'', JStr '' Portal '')]])])]"

text \<open>A value for the parameter \<open>repr\<close> where no float, list or dict is turned into text.\<close>

definition no_repr :: "json \<Rightarrow> string" where
  "no_repr v = []"

text \<open>The defaults of the command line (lines 80 to 82).\<close>

definition default_args :: args where
  "default_args = \<lparr>arg_api_key = DEFAULT_API_KEY, arg_out = ''steam_apps.csv'', arg_json = False\<rparr>"

definition no_files :: files where
  "no_files path = None"

text \<open>A network where every attempt ends in a connection error.\<close>

definition net_down :: network where
  "net_down k req = Inl ConnectionError"

text \<open>A network that answers the first request with status 200 and the response above.\<close>

definition ok_response :: response where
  "ok_response = \<lparr>status_code = 200, raise_for_status = None, json_result = Inr mock_response\<rparr>"

definition net_ok :: network where
  "net_ok k req = Inr ok_response"

text \<open>A network that times out on attempts 1 and 2 and answers attempt 3.\<close>

definition net_third :: network where
  "net_third k req = (if k < 3 then Inl Timeout else Inr ok_response)"

section \<open>Properties of the extractor\<close>


lemma chosen_appid_priority:
  "chosen_appid kvs =
     (if truthy (dict_get kvs ''appid'') then dict_get kvs ''appid''
      else if truthy (dict_get kvs ''AppId'') then dict_get kvs ''AppId''
      else dict_get kvs ''AppID'')"
  by (simp add: chosen_appid_def py_or_def)

lemma chosen_name_priority:
  "chosen_name kvs =
     (if truthy (dict_get kvs ''name'') then dict_get kvs ''name''
      else if truthy (dict_get kvs ''Name'') then dict_get kvs ''Name''
      else JStr [])"
  by (simp add: chosen_name_def py_or_def)


lemma extract_entry_skipped:
  "py_int (chosen_appid kvs) = Inl ex \<Longrightarrow> extract_entry repr (JObj kvs) = Inr None"
  by (simp add: extract_entry_def)

lemma extract_loop_results:
  "extract_loop repr es = Inr ps \<Longrightarrow>
   map (\<lambda>p. Inr (Some p)) ps = filter (\<lambda>r. r \<noteq> Inr None) (map (extract_entry repr) es)"
proof (induction es arbitrary: ps)
  case Nil
  then show ?case by simp
next
  case (Cons e es)
  then show ?case
    by (auto split: sum.splits option.splits)
qed

lemma extract_loop_length:
  "extract_loop repr es = Inr ps \<Longrightarrow> length ps \<le> length es"
proof (induction es arbitrary: ps)
  case Nil
  then show ?case by simp
next
  case (Cons e es)
  then show ?case
    by (fastforce split: sum.splits option.splits)
qed

lemma extract_apps_count:
  assumes "extract_apps repr json_data = Inr ps"
  shows "\<exists>es. raw_entries json_data = Inr es \<and> length ps \<le> length es"
proof -
  from assms obtain es where "raw_entries json_data = Inr es" "extract_loop repr es = Inr ps"
    by (auto simp: extract_apps_def split: sum.splits)
  then show ?thesis
    using extract_loop_length by blast
qed

lemmas extract_eval =
  extract_apps_def raw_entries_def py_or_def dict_get_def extract_entry_def
  chosen_appid_def chosen_name_def int_of_str_def strip_def py_isspace_def digit_of_def




text \<open>
  C2, as the code has it. When the parsed response is a mapping whose \<^verbatim>\<open>applist\<close> field
  is absent, \<^verbatim>\<open>null\<close> or any other falsy value, or is a mapping whose \<^verbatim>\<open>apps\<close> field is
  absent, \<^verbatim>\<open>null\<close> or any other falsy value, \<^verbatim>\<open>extract_apps\<close> returns the empty
  collection of pairs and raises nothing.
\<close>

theorem extract_apps_missing_container:
  assumes "\<not> truthy (dict_get kvs ''applist'')
           \<or> (\<exists>kvs2. dict_get kvs ''applist'' = JObj kvs2 \<and> \<not> truthy (dict_get kvs2 ''apps''))"
  shows "extract_apps repr (JObj kvs) = Inr []"
  using assms by (auto simp: extract_apps_def raw_entries_def py_or_def dict_get_def)

text \<open>The theorem at \<^verbatim>\<open>{"applist": null}\<close> and at \<^verbatim>\<open>{"applist": {"apps": null}}\<close>.\<close>

theorem extract_apps_missing_container_witness:
  "extract_apps no_repr (JObj [(''applist'', JNull)]) = Inr []
   \<and> extract_apps no_repr (JObj [(''applist'', JObj [(''apps'', JNull)])]) = Inr []"
proof -
  have h1: "\<not> truthy (dict_get [(''applist'', JNull)] ''applist'')
            \<or> (\<exists>kvs2. dict_get [(''applist'', JNull)] ''applist'' = JObj kvs2
                 \<and> \<not> truthy (dict_get kvs2 ''apps''))"
    by (simp add: dict_get_def)
  have h2: "\<not> truthy (dict_get [(''applist'', JObj [(''apps'', JNull)])] ''applist'')
            \<or> (\<exists>kvs2. dict_get [(''applist'', JObj [(''apps'', JNull)])] ''applist'' = JObj kvs2
                 \<and> \<not> truthy (dict_get kvs2 ''apps''))"
    by (simp add: dict_get_def)
  show ?thesis
    using extract_apps_missing_container [OF h1, of no_repr]
      extract_apps_missing_container [OF h2, of no_repr]
    by simp
qed

text \<open>
  C2 as stated fails: in \<^verbatim>\<open>{"applist": [1]}\<close> the \<^verbatim>\<open>applist\<close> field is not a mapping; it
  is truthy, so \<^verbatim>\<open>or {}\<close> keeps it, and \<^verbatim>\<open>.get\<close> on a list raises \<^verbatim>\<open>AttributeError\<close>.
\<close>

theorem extract_apps_applist_not_mapping:
  "extract_apps no_repr (JObj [(''applist'', JArr [JInt 1])]) = Inl AttributeError"
  by (simp add: extract_eval)

text \<open>
  C3 at an entry collection whose second entry is \<^verbatim>\<open>null\<close>, in
  \<^verbatim>\<open>{"applist":{"apps":[{"appid":10,"name":"Half-Life"}, null]}}\<close>: the entry is not
  skipped. \<^verbatim>\<open>e.get\<close> stands before the \<^verbatim>\<open>try\<close>, so the \<^verbatim>\<open>AttributeError\<close> leaves
  \<^verbatim>\<open>extract_apps\<close> and no pair at all is returned. The rest of C3 holds: an entry
  mapping whose chosen identifier \<^verbatim>\<open>int\<close> rejects is skipped (\<open>extract_entry_skipped\<close>),
  and whenever \<^verbatim>\<open>extract_apps\<close> returns there are at most as many pairs as entries
  (\<open>extract_apps_count\<close>).
\<close>

theorem extract_apps_null_entry_raises:
  "extract_apps no_repr
     (JObj [(''applist'', JObj [(''apps'', JArr
        [JObj [(''appid'', JInt 10), (''name'', JStr ''Half-Life'')], JNull])])])
   = Inl AttributeError"
  by (simp add: extract_eval)

text \<open>
  C10. Whenever \<^verbatim>\<open>extract_apps\<close> returns, the collection it ran over is \<open>es\<close> and the
  pairs are, in order, exactly the results of the entries of \<open>es\<close> that were not
  skipped: the sequence of pairs is a subsequence of the per-entry results, each pair
  being the result of its own entry.
\<close>

theorem extract_apps_order:
  assumes "extract_apps repr json_data = Inr ps"
  shows "\<exists>es. raw_entries json_data = Inr es
           \<and> map (\<lambda>p. Inr (Some p)) ps
               = filter (\<lambda>r. r \<noteq> Inr None) (map (extract_entry repr) es)
           \<and> subseq (map (\<lambda>p. Inr (Some p)) ps) (map (extract_entry repr) es)"
proof -
  from assms obtain es where es: "raw_entries json_data = Inr es" "extract_loop repr es = Inr ps"
    by (auto simp: extract_apps_def split: sum.splits)
  have eq: "map (\<lambda>p. Inr (Some p)) ps
              = filter (\<lambda>r. r \<noteq> Inr None) (map (extract_entry repr) es)"
    using es(2) by (rule extract_loop_results)
  have "subseq (filter (\<lambda>r. r \<noteq> Inr None) (map (extract_entry repr) es))
          (map (extract_entry repr) es)"
    by (rule subseq_filter_left)
  with eq es(1) show ?thesis by simp
qed

text \<open>The theorem on the end-to-end scenario: the pairs of entries 1 and 3, in that order.\<close>

theorem extract_apps_order_witness:
  "extract_apps no_repr mock_response = Inr [(10, ''Half-Life''), (20, ''Portal'')]
   \<and> (\<exists>es. raw_entries mock_response = Inr es
         \<and> map (\<lambda>p. Inr (Some p)) [(10, ''Half-Life''), (20, ''Portal'')]
             = filter (\<lambda>r. r \<noteq> Inr None) (map (extract_entry no_repr) es)
         \<and> subseq (map (\<lambda>p. Inr (Some p)) [(10, ''Half-Life''), (20, ''Portal'')])
             (map (extract_entry no_repr) es))"
proof -
  have run: "extract_apps no_repr mock_response = Inr [(10, ''Half-Life''), (20, ''Portal'')]"
    by (simp add: mock_response_def extract_eval)
  from extract_apps_order [OF run] run show ?thesis
    by blast
qed

section \<open>Properties of the fetcher\<close>

lemma gets_append [simp]: "gets (xs @ ys) = gets xs @ gets ys"
  by (induction xs rule: gets.induct) auto

lemma sleeps_append [simp]: "sleeps (xs @ ys) = sleeps xs @ sleeps ys"
  by (induction xs rule: sleeps.induct) auto

lemma fetch_loop_done:
  "\<not> a < m \<Longrightarrow> fetch_loop net req m b a tr = (tr, Inr JNull)"
  by (simp add: fetch_loop.simps)

lemma fetch_loop_success:
  "a < m \<Longrightarrow> try_get net (nat (a + 1)) req = Inr v \<Longrightarrow>
   fetch_loop net req m b a tr = (tr @ [Http_get req], Inr v)"
  by (simp add: fetch_loop.simps [of net req m b a])

lemma fetch_loop_last:
  "a < m \<Longrightarrow> try_get net (nat (a + 1)) req = Inl ex \<Longrightarrow> m \<le> a + 1 \<Longrightarrow>
   fetch_loop net req m b a tr =
     (tr @ [Http_get req, Stderr (Attempt_failed (a + 1) ex)], Inl ex)"
  by (simp add: fetch_loop.simps [of net req m b a])

lemma fetch_loop_sleep_raises:
  "a < m \<Longrightarrow> try_get net (nat (a + 1)) req = Inl ex \<Longrightarrow> \<not> m \<le> a + 1 \<Longrightarrow>
   py_sleep (b * of_int (a + 1)) = Some ex' \<Longrightarrow>
   fetch_loop net req m b a tr =
     (tr @ [Http_get req, Stderr (Attempt_failed (a + 1) ex)], Inl ex')"
  by (simp add: fetch_loop.simps [of net req m b a])

lemma fetch_loop_retry:
  "a < m \<Longrightarrow> try_get net (nat (a + 1)) req = Inl ex \<Longrightarrow> \<not> m \<le> a + 1 \<Longrightarrow>
   py_sleep (b * of_int (a + 1)) = None \<Longrightarrow>
   fetch_loop net req m b a tr =
     fetch_loop net req m b (a + 1)
       (tr @ [Http_get req, Stderr (Attempt_failed (a + 1) ex), Sleep (b * of_int (a + 1))])"
  by (simp add: fetch_loop.simps [of net req m b a])

lemma fetch_loop_cases:
  obtains (finished) "\<not> a < m"
  | (success) v where "a < m" "try_get net (nat (a + 1)) req = Inr v"
  | (exhausted) ex where "a < m" "try_get net (nat (a + 1)) req = Inl ex" "m \<le> a + 1"
  | (sleep_raises) ex ex' where "a < m" "try_get net (nat (a + 1)) req = Inl ex" "\<not> m \<le> a + 1"
      "py_sleep (b * of_int (a + 1)) = Some ex'"
  | (retry) ex where "a < m" "try_get net (nat (a + 1)) req = Inl ex" "\<not> m \<le> a + 1"
      "py_sleep (b * of_int (a + 1)) = None"
  by (cases "try_get net (nat (a + 1)) req"; cases "py_sleep (b * of_int (a + 1))"; cases "a < m"; cases "m \<le> a + 1"; blast)

lemma fetch_loop_trace:
  "fetch_loop net req m b a tr =
     (tr @ fst (fetch_loop net req m b a []), snd (fetch_loop net req m b a []))"
proof (induction "nat (m - a)" arbitrary: a tr)
  case 0
  then have "\<not> a < m" by simp
  then show ?case by (simp add: fetch_loop_done)
next
  case (Suc n)
  then have n: "n = nat (m - (a + 1))" by simp
  show ?case
  proof (cases rule: fetch_loop_cases [where a=a and m=m and net=net and req=req and b=b])
    case finished
    then show ?thesis by (simp add: fetch_loop_done)
  next
    case (success v)
    then show ?thesis by (simp add: fetch_loop_success)
  next
    case (exhausted ex)
    then show ?thesis by (simp add: fetch_loop_last)
  next
    case (sleep_raises ex ex')
    then show ?thesis by (simp add: fetch_loop_sleep_raises)
  next
    case (retry ex)
    let ?step = "[Http_get req, Stderr (Attempt_failed (a + 1) ex), Sleep (b * of_int (a + 1))]"
    define F0 where "F0 = fetch_loop net req m b (a + 1) []"
    have l: "fetch_loop net req m b a tr = fetch_loop net req m b (a + 1) (tr @ ?step)"
      using retry by (rule fetch_loop_retry)
    have r: "fetch_loop net req m b a [] = fetch_loop net req m b (a + 1) ?step"
      using fetch_loop_retry [OF retry, of "[]"] by simp
    have ih1: "fetch_loop net req m b (a + 1) (tr @ ?step) = ((tr @ ?step) @ fst F0, snd F0)"
      unfolding F0_def by (rule Suc.hyps(1) [OF n])
    have ih2: "fetch_loop net req m b (a + 1) ?step = (?step @ fst F0, snd F0)"
      unfolding F0_def by (rule Suc.hyps(1) [OF n])
    show ?thesis
      unfolding l r ih1 ih2 by simp
  qed
qed


lemma gets_fetch_loop:
  "\<exists>n\<le>nat (m - a). gets (fst (fetch_loop net req m b a tr)) = gets tr @ replicate n req"
proof (induction "nat (m - a)" arbitrary: a tr)
  case 0
  then have "\<not> a < m" by simp
  then show ?case by (simp add: fetch_loop_done)
next
  case (Suc n)
  then have n: "n = nat (m - (a + 1))" by simp
  show ?case
  proof (cases rule: fetch_loop_cases [where a=a and m=m and net=net and req=req and b=b])
    case finished
    then show ?thesis by (simp add: fetch_loop_done)
  next
    case (success v)
    then have "gets (fst (fetch_loop net req m b a tr)) = gets tr @ replicate 1 req"
      by (simp add: fetch_loop_success)
    moreover have "1 \<le> nat (m - a)" using success(1) by simp
    ultimately show ?thesis by blast
  next
    case (exhausted ex)
    then have "gets (fst (fetch_loop net req m b a tr)) = gets tr @ replicate 1 req"
      by (simp add: fetch_loop_last)
    moreover have "1 \<le> nat (m - a)" using exhausted(1) by simp
    ultimately show ?thesis by blast
  next
    case (sleep_raises ex ex')
    then have "gets (fst (fetch_loop net req m b a tr)) = gets tr @ replicate 1 req"
      by (simp add: fetch_loop_sleep_raises)
    moreover have "1 \<le> nat (m - a)" using sleep_raises(1) by simp
    ultimately show ?thesis by blast
  next
    case (retry ex)
    let ?step = "[Http_get req, Stderr (Attempt_failed (a + 1) ex), Sleep (b * of_int (a + 1))]"
    from Suc.hyps(1) [OF n, of "tr @ ?step"] obtain k where
      k: "k \<le> nat (m - (a + 1))"
        "gets (fst (fetch_loop net req m b (a + 1) (tr @ ?step))) = gets (tr @ ?step) @ replicate k req"
      by blast
    have "gets (fst (fetch_loop net req m b a tr)) = gets tr @ replicate (Suc k) req"
      using k(2) by (simp add: fetch_loop_retry [OF retry])
    moreover have "Suc k \<le> nat (m - a)" using k(1) retry(1) by simp
    ultimately show ?thesis by blast
  qed
qed









text \<open>
  C6. Two runs of \<^verbatim>\<open>fetch_applist\<close> that differ only in the credential issue the same
  requests and return the same result; every request is the fixed
  \<^const>\<open>applist_request\<close>: the URL \<^verbatim>\<open>DEFAULT_URL\<close>, no query parameter, and the two
  headers \<^verbatim>\<open>User-Agent\<close> and \<^verbatim>\<open>Accept\<close>, none of which is built from the credential.
\<close>

theorem fetch_applist_ignores_key:
  "gets (fst (fetch_applist key1 t m b net)) = gets (fst (fetch_applist key2 t m b net))
   \<and> snd (fetch_applist key1 t m b net) = snd (fetch_applist key2 t m b net)
   \<and> gets (fst (fetch_applist key1 t m b net))
       = replicate (length (gets (fst (fetch_applist key1 t m b net)))) (applist_request t)
   \<and> req_url (applist_request t) = DEFAULT_URL
   \<and> req_params (applist_request t) = []
   \<and> req_headers (applist_request t)
       = [(''User-Agent'', ''fetch_steam_applist/1.0''), (''Accept'', ''application/json'')]"
proof -
  let ?F = "fetch_loop net (applist_request t) m b 0 []"
  have split: "fetch_applist key t m b net
      = ((if key \<noteq> [] then [Stderr Key_ignored] else []) @ fst ?F, snd ?F)" for key
    unfolding fetch_applist_def by (rule fetch_loop_trace)
  have g: "gets (fst (fetch_applist key t m b net)) = gets (fst ?F)" for key
    by (simp add: split)
  obtain n where n: "gets (fst ?F) = replicate n (applist_request t)"
    using gets_fetch_loop [of m 0 net "applist_request t" b "[]"] by auto
  have "gets (fst (fetch_applist key1 t m b net)) = gets (fst (fetch_applist key2 t m b net))"
    by (simp add: g)
  moreover have "snd (fetch_applist key1 t m b net) = snd (fetch_applist key2 t m b net)"
    by (simp add: split)
  moreover have "gets (fst (fetch_applist key1 t m b net))
       = replicate (length (gets (fst (fetch_applist key1 t m b net)))) (applist_request t)"
    by (simp add: g n)
  ultimately show ?thesis
    by (simp add: applist_request_def)
qed

text \<open>The theorem for the default key and for no key at all.\<close>

theorem fetch_applist_ignores_key_witness:
  "gets (fst (fetch_applist DEFAULT_API_KEY 60 3 2 net_third))
     = gets (fst (fetch_applist [] 60 3 2 net_third))
   \<and> snd (fetch_applist DEFAULT_API_KEY 60 3 2 net_third) = snd (fetch_applist [] 60 3 2 net_third)"
  using fetch_applist_ignores_key [of DEFAULT_API_KEY 60 3 2 net_third "[]"]
  by simp

section \<open>Properties of the writer\<close>

text \<open>
  C9. With an empty sequence of pairs, \<^verbatim>\<open>write_csv\<close> still writes the file, and its
  content is the header row \<^verbatim>\<open>AppId,Name\<close> followed by the line terminator and nothing
  else.
\<close>

theorem write_csv_empty:
  "write_csv None path [] fs = (Inr (), fs(path \<mapsto> Text (''AppId,Name'' @ [CR, LF])))"
  by (simp add: write_csv_def csv_text_def writerow_def csv_field_def csv_special_def
      COMMA_def DQ_def CR_def LF_def)
























section \<open>Properties of the orchestration\<close>

lemma fetch_applist_net_down:
  "fetch_applist DEFAULT_API_KEY 60 3 2 net_down =
     ([Stderr Key_ignored,
       Http_get (applist_request 60), Stderr (Attempt_failed 1 ConnectionError), Sleep 2,
       Http_get (applist_request 60), Stderr (Attempt_failed 2 ConnectionError), Sleep 4,
       Http_get (applist_request 60), Stderr (Attempt_failed 3 ConnectionError)],
      Inl ConnectionError)"
  by (simp add: fetch_applist_def DEFAULT_API_KEY_def fetch_loop.simps try_get_def net_down_def
      py_sleep_def)

lemma fetch_applist_net_ok:
  "fetch_applist DEFAULT_API_KEY 60 3 2 net_ok =
     ([Stderr Key_ignored, Http_get (applist_request 60)], Inr mock_response)"
  by (simp add: fetch_applist_def DEFAULT_API_KEY_def fetch_loop.simps try_get_def net_ok_def
      ok_response_def)

lemma extract_mock_response:
  "extract_apps no_repr mock_response = Inr [(10, ''Half-Life''), (20, ''Portal'')]"
  by (simp add: mock_response_def extract_eval)

text \<open>
  How a run ends, whatever the dump does: the JSON flag and the fault of the dump do not
  appear on the right-hand side.
\<close>

lemma main_outcome:
  "snd (snd (main repr a w fs)) =
     (case snd (fetch_applist (arg_api_key a) 60 3 2 (env_net w)) of
        Inl ex \<Rightarrow> (case env_stdin w of Inl ex' \<Rightarrow> Uncaught ex' | Inr line \<Rightarrow> Exit 2)
      | Inr data \<Rightarrow>
          (case extract_apps repr data of
             Inl ex \<Rightarrow> Uncaught ex
           | Inr apps \<Rightarrow>
               (case env_csv_fault w of
                  Some ex \<Rightarrow> (case env_stdin w of Inl ex' \<Rightarrow> Uncaught ex' | Inr line \<Rightarrow> Exit 3)
                | None \<Rightarrow> Exit 0)))"
  by (simp add: main_def write_csv_def split: prod.splits sum.splits option.splits)

text \<open>
  C4 at a run where every attempt fails and standard input is closed. The claim says that
  the missing input stream does not crash the program, which ends with exit code 2. In the
  code the \<^verbatim>\<open>input\<close> of line 90 is not guarded (that of line 112, on the success path, is):
  \<^verbatim>\<open>EOFError\<close> leaves \<^verbatim>\<open>main\<close> uncaught and the interpreter exits with status 1.
\<close>

theorem main_fetch_failure_without_stdin:
  "snd (snd (main no_repr default_args
       \<lparr>env_net = net_down, env_dump_fault = None, env_csv_fault = None,
        env_stdin = Inl EOFError\<rparr> no_files))
   = Uncaught EOFError
   \<and> exit_status (snd (snd (main no_repr default_args
       \<lparr>env_net = net_down, env_dump_fault = None, env_csv_fault = None,
        env_stdin = Inl EOFError\<rparr> no_files)))
   = 1"
  by (simp add: main_def default_args_def fetch_applist_net_down)

text \<open>
  C8 at a run where the fetch succeeds, writing the CSV file fails and standard input is
  closed. The claim says that the exit code is 3. The \<^verbatim>\<open>input\<close> of line 107 is not guarded
  either: \<^verbatim>\<open>EOFError\<close> leaves \<^verbatim>\<open>main\<close> uncaught, \<^verbatim>\<open>return 3\<close> is never reached and
  the interpreter exits with status 1.
\<close>

theorem main_csv_failure_without_stdin:
  "snd (snd (main no_repr default_args
       \<lparr>env_net = net_ok, env_dump_fault = None, env_csv_fault = Some OSError,
        env_stdin = Inl EOFError\<rparr> no_files))
   = Uncaught EOFError
   \<and> exit_status (snd (snd (main no_repr default_args
       \<lparr>env_net = net_ok, env_dump_fault = None, env_csv_fault = Some OSError,
        env_stdin = Inl EOFError\<rparr> no_files)))
   = 1"
  by (simp add: main_def default_args_def fetch_applist_net_ok dump_json_def
      extract_mock_response write_csv_def)

end
